theory Spec2Isabelle
  imports Complex_Main
begin

section \<open>Atomic scenario behaviours: data model\<close>

text \<open>
  Shallow embedding of \<^verbatim>\<open>ScenarioManager/atomic_scenario_behavior.py\<close>.
  Python floats are read as the real numbers: the comparisons, the branch
  structure and the arithmetic of the source are kept, the arithmetic is exact
  (no rounding, no overflow) and the state of an actor is finite. The
  exceptional float values (the infinities and NaN) and the exceptions of the
  arithmetic are made explicit for the two nodes that divide, in the section on
  checked evaluation. Debug logging is left out; it has no effect on the values
  computed.
\<close>

datatype Status = INVALID | RUNNING | SUCCESS | FAILURE

datatype error = ZeroDivisionError | ValueError

text \<open>Python's \<^verbatim>\<open>a / b\<close> on floats raises when the divisor is zero.\<close>

definition py_truediv :: "real \<Rightarrow> real \<Rightarrow> error + real" where
  "py_truediv a b = (if b = 0 then Inl ZeroDivisionError else Inr (a / b))"

definition EPSILON :: real where
  "EPSILON = 0.001"

text \<open>
  Modelled from the spec: the simulator's types (the \<^verbatim>\<open>carla\<close> module is
  imported by the source, not defined in it). A location and a velocity are
  vectors with the coordinates \<open>x\<close>, \<open>y\<close>, \<open>z\<close>; a control command carries the
  scalars throttle, steer and brake and the flags hand brake and reverse, all
  neutral at construction; an actor exposes its location, its velocity and
  accepts control commands. The commands an actor has received are kept as a
  list, most recent first, so that the head is the actuation it is currently
  commanded to.
\<close>

record Vector3D =
  x :: real
  y :: real
  z :: real

record VehicleControl =
  throttle :: real
  steer :: real
  brake :: real
  hand_brake :: bool
  reverse :: bool

definition VehicleControl_init :: VehicleControl where
  "VehicleControl_init =
     \<lparr>throttle = 0, steer = 0, brake = 0, hand_brake = False, reverse = False\<rparr>"

record Vehicle =
  location :: Vector3D
  velocity :: Vector3D
  applied :: "VehicleControl list"

definition get_location :: "Vehicle \<Rightarrow> Vector3D" where
  "get_location vehicle = location vehicle"

definition get_velocity :: "Vehicle \<Rightarrow> Vector3D" where
  "get_velocity vehicle = velocity vehicle"

definition apply_control :: "VehicleControl \<Rightarrow> Vehicle \<Rightarrow> Vehicle" where
  "apply_control c vehicle = vehicle\<lparr>applied := c # applied vehicle\<rparr>"

text \<open>
  Modelled from the spec: \<^verbatim>\<open>Location.distance\<close> of the simulator, the
  Euclidean straight-line distance between two positions.
\<close>

definition Location_distance :: "Vector3D \<Rightarrow> Vector3D \<Rightarrow> real" where
  "Location_distance p q = sqrt ((x p - x q)\<^sup>2 + (y p - y q)\<^sup>2 + (z p - z q)\<^sup>2)"

section \<open>Kinematic helpers\<close>

definition calculate_distance :: "Vector3D \<Rightarrow> Vector3D \<Rightarrow> real" where
  "calculate_distance loc other_location = Location_distance loc other_location"

definition calculate_velocity :: "Vehicle \<Rightarrow> real" where
  "calculate_velocity vehicle =
     (let velocity_squared = (x (get_velocity vehicle))\<^sup>2;
          velocity_squared = velocity_squared + (y (get_velocity vehicle))\<^sup>2
      in sqrt velocity_squared)"

section \<open>Condition nodes\<close>

text \<open>
  A node keeps a reference to the actor it observes; the actor belongs to the
  simulation and changes between ticks. The actor is therefore an argument of
  \<open>update\<close>, its state at the tick, in the order the constructor takes the
  actors; the node record holds the remaining constructor parameters.
\<close>

record InTriggerRegion =
  min_x :: real
  max_x :: real
  min_y :: real
  max_y :: real

definition InTriggerRegion_init :: "real \<Rightarrow> real \<Rightarrow> real \<Rightarrow> real \<Rightarrow> InTriggerRegion" where
  "InTriggerRegion_init lo_x hi_x lo_y hi_y =
     \<lparr>min_x = lo_x, max_x = hi_x, min_y = lo_y, max_y = hi_y\<rparr>"

definition InTriggerRegion_update :: "InTriggerRegion \<Rightarrow> Vehicle \<Rightarrow> Status" where
  "InTriggerRegion_update self vehicle =
     (let loc = get_location vehicle;
          not_in_region = ((x loc < min_x self \<or> x loc > max_x self) \<or>
                           (y loc < min_y self \<or> y loc > max_y self))
      in if not_in_region then RUNNING else SUCCESS)"

record InTriggerDistanceToVehicle =
  distance :: real

definition InTriggerDistanceToVehicle_init :: "real \<Rightarrow> InTriggerDistanceToVehicle" where
  "InTriggerDistanceToVehicle_init d = \<lparr>distance = d\<rparr>"

definition InTriggerDistanceToVehicle_update ::
    "InTriggerDistanceToVehicle \<Rightarrow> Vehicle \<Rightarrow> Vehicle \<Rightarrow> Status" where
  "InTriggerDistanceToVehicle_update self other_vehicle ego_vehicle =
     (let ego_location = get_location ego_vehicle;
          other_location = get_location other_vehicle
      in if calculate_distance ego_location other_location
              > InTriggerDistanceToVehicle.distance self
         then RUNNING else SUCCESS)"

record InTriggerDistanceToLocation =
  target_location :: Vector3D
  distance :: real

definition InTriggerDistanceToLocation_init ::
    "Vector3D \<Rightarrow> real \<Rightarrow> InTriggerDistanceToLocation" where
  "InTriggerDistanceToLocation_init target d = \<lparr>target_location = target, distance = d\<rparr>"

definition InTriggerDistanceToLocation_update ::
    "InTriggerDistanceToLocation \<Rightarrow> Vehicle \<Rightarrow> Status" where
  "InTriggerDistanceToLocation_update self vehicle =
     (let loc = get_location vehicle
      in if calculate_distance loc (InTriggerDistanceToLocation.target_location self)
              > InTriggerDistanceToLocation.distance self
         then RUNNING else SUCCESS)"

record TriggerVelocity =
  target_velocity :: real

definition TriggerVelocity_init :: "real \<Rightarrow> TriggerVelocity" where
  "TriggerVelocity_init target_vel = \<lparr>target_velocity = target_vel\<rparr>"

definition TriggerVelocity_update :: "TriggerVelocity \<Rightarrow> Vehicle \<Rightarrow> Status" where
  "TriggerVelocity_update self vehicle =
     (if calculate_velocity vehicle - TriggerVelocity.target_velocity self < EPSILON
      then SUCCESS else RUNNING)"

record InTimeToArrivalToLocation =
  time :: real
  target_location :: Vector3D

definition InTimeToArrivalToLocation_init :: "real \<Rightarrow> Vector3D \<Rightarrow> InTimeToArrivalToLocation" where
  "InTimeToArrivalToLocation_init t loc = \<lparr>time = t, target_location = loc\<rparr>"

definition InTimeToArrivalToLocation_max_time_to_arrival :: real where
  "InTimeToArrivalToLocation_max_time_to_arrival = 10000"

definition InTimeToArrivalToLocation_update ::
    "InTimeToArrivalToLocation \<Rightarrow> Vehicle \<Rightarrow> error + Status" where
  "InTimeToArrivalToLocation_update self vehicle =
     (let current_location = get_location vehicle;
          dist = calculate_distance current_location
                   (InTimeToArrivalToLocation.target_location self);
          vel = calculate_velocity vehicle;
          time_to_arrival =
            (if vel > EPSILON then py_truediv dist vel
             else Inr InTimeToArrivalToLocation_max_time_to_arrival)
      in case time_to_arrival of
           Inl e \<Rightarrow> Inl e
         | Inr t \<Rightarrow>
             Inr (if t > InTimeToArrivalToLocation.time self then RUNNING else SUCCESS))"

record InTimeToArrivalToVehicle =
  time :: real

definition InTimeToArrivalToVehicle_init :: "real \<Rightarrow> InTimeToArrivalToVehicle" where
  "InTimeToArrivalToVehicle_init t = \<lparr>time = t\<rparr>"

definition InTimeToArrivalToVehicle_max_time_to_arrival :: real where
  "InTimeToArrivalToVehicle_max_time_to_arrival = 10000"

definition InTimeToArrivalToVehicle_update ::
    "InTimeToArrivalToVehicle \<Rightarrow> Vehicle \<Rightarrow> Vehicle \<Rightarrow> error + Status" where
  "InTimeToArrivalToVehicle_update self other_vehicle ego_vehicle =
     (let current_location = get_location ego_vehicle;
          target_loc = get_location other_vehicle;
          dist = calculate_distance current_location target_loc;
          current_velocity = calculate_velocity ego_vehicle;
          other_velocity = calculate_velocity other_vehicle;
          time_to_arrival =
            (if current_velocity > other_velocity
             then py_truediv (2 * dist) (current_velocity - other_velocity)
             else Inr InTimeToArrivalToVehicle_max_time_to_arrival)
      in case time_to_arrival of
           Inl e \<Rightarrow> Inl e
         | Inr t \<Rightarrow>
             Inr (if t > InTimeToArrivalToVehicle.time self then RUNNING else SUCCESS))"



section \<open>Checked evaluation of the dividing nodes\<close>








section \<open>Action nodes\<close>

text \<open>
  An action node owns the control command built by its constructor and mutates
  it in place; \<open>update\<close> and \<open>terminate\<close> return the node and the actor as they
  are after the call.
\<close>

record AccelerateToVelocity =
  control :: VehicleControl
  throttle_value :: real
  target_velocity :: real

definition AccelerateToVelocity_init :: "real \<Rightarrow> real \<Rightarrow> AccelerateToVelocity" where
  "AccelerateToVelocity_init throttle_val target_vel =
     \<lparr>control = VehicleControl_init, throttle_value = throttle_val,
      target_velocity = target_vel\<rparr>"

definition AccelerateToVelocity_update ::
    "AccelerateToVelocity \<Rightarrow> Vehicle \<Rightarrow> Status \<times> AccelerateToVelocity \<times> Vehicle" where
  "AccelerateToVelocity_update self vehicle =
     (let (new_status, self) =
            (if calculate_velocity vehicle < AccelerateToVelocity.target_velocity self
             then (RUNNING,
                   self\<lparr>AccelerateToVelocity.control :=
                          (AccelerateToVelocity.control self)
                            \<lparr>throttle := throttle_value self\<rparr>\<rparr>)
             else (SUCCESS,
                   self\<lparr>AccelerateToVelocity.control :=
                          (AccelerateToVelocity.control self)\<lparr>throttle := 0\<rparr>\<rparr>));
          vehicle = apply_control (AccelerateToVelocity.control self) vehicle
      in (new_status, self, vehicle))"

definition AccelerateToVelocity_terminate ::
    "AccelerateToVelocity \<Rightarrow> Vehicle \<Rightarrow> Status \<Rightarrow> AccelerateToVelocity \<times> Vehicle" where
  "AccelerateToVelocity_terminate self vehicle new_status = (self, vehicle)"

record KeepVelocity =
  control :: VehicleControl
  target_velocity :: real

definition KeepVelocity_init :: "real \<Rightarrow> KeepVelocity" where
  "KeepVelocity_init target_vel =
     \<lparr>control = VehicleControl_init, target_velocity = target_vel\<rparr>"

definition KeepVelocity_update ::
    "KeepVelocity \<Rightarrow> Vehicle \<Rightarrow> Status \<times> KeepVelocity \<times> Vehicle" where
  "KeepVelocity_update self vehicle =
     (let new_status = RUNNING;
          self =
            (if calculate_velocity vehicle < KeepVelocity.target_velocity self
             then self\<lparr>KeepVelocity.control :=
                         (KeepVelocity.control self)\<lparr>throttle := 1.0\<rparr>\<rparr>
             else self\<lparr>KeepVelocity.control :=
                         (KeepVelocity.control self)\<lparr>throttle := 0.0\<rparr>\<rparr>);
          vehicle = apply_control (KeepVelocity.control self) vehicle
      in (new_status, self, vehicle))"

definition KeepVelocity_terminate ::
    "KeepVelocity \<Rightarrow> Vehicle \<Rightarrow> Status \<Rightarrow> KeepVelocity \<times> Vehicle" where
  "KeepVelocity_terminate self vehicle new_status =
     (let self = self\<lparr>KeepVelocity.control :=
                       (KeepVelocity.control self)\<lparr>throttle := 0.0\<rparr>\<rparr>;
          vehicle = apply_control (KeepVelocity.control self) vehicle
      in (self, vehicle))"

record StopVehicle =
  control :: VehicleControl
  brake_value :: real

definition StopVehicle_init :: "real \<Rightarrow> StopVehicle" where
  "StopVehicle_init brake_val = \<lparr>control = VehicleControl_init, brake_value = brake_val\<rparr>"

definition StopVehicle_update ::
    "StopVehicle \<Rightarrow> Vehicle \<Rightarrow> Status \<times> StopVehicle \<times> Vehicle" where
  "StopVehicle_update self vehicle =
     (let (new_status, self) =
            (if calculate_velocity vehicle > EPSILON
             then (RUNNING,
                   self\<lparr>StopVehicle.control :=
                          (StopVehicle.control self)\<lparr>brake := brake_value self\<rparr>\<rparr>)
             else (SUCCESS,
                   self\<lparr>StopVehicle.control :=
                          (StopVehicle.control self)\<lparr>brake := 0\<rparr>\<rparr>));
          vehicle = apply_control (StopVehicle.control self) vehicle
      in (new_status, self, vehicle))"

definition StopVehicle_terminate ::
    "StopVehicle \<Rightarrow> Vehicle \<Rightarrow> Status \<Rightarrow> StopVehicle \<times> Vehicle" where
  "StopVehicle_terminate self vehicle new_status = (self, vehicle)"

section \<open>The life of a node\<close>

text \<open>
  What can happen to an action node and its actor, in any order and any number
  of times: the simulation moves the actor (new location and velocity), the
  composition engine ticks the node, or it terminates the node with a status.
\<close>

datatype event = Simulate Vector3D Vector3D | Update | Terminate Status

fun lifecycle_step ::
    "('n \<Rightarrow> Vehicle \<Rightarrow> Status \<times> 'n \<times> Vehicle) \<Rightarrow> ('n \<Rightarrow> Vehicle \<Rightarrow> Status \<Rightarrow> 'n \<times> Vehicle)
     \<Rightarrow> 'n \<times> Vehicle \<Rightarrow> event \<Rightarrow> 'n \<times> Vehicle" where
  "lifecycle_step upd trm (self, vehicle) (Simulate loc vel) =
     (self, vehicle\<lparr>location := loc, velocity := vel\<rparr>)"
| "lifecycle_step upd trm (self, vehicle) Update =
     (case upd self vehicle of (new_status, self', vehicle') \<Rightarrow> (self', vehicle'))"
| "lifecycle_step upd trm (self, vehicle) (Terminate new_status) =
     trm self vehicle new_status"

definition lifecycle_run ::
    "('n \<Rightarrow> Vehicle \<Rightarrow> Status \<times> 'n \<times> Vehicle) \<Rightarrow> ('n \<Rightarrow> Vehicle \<Rightarrow> Status \<Rightarrow> 'n \<times> Vehicle)
     \<Rightarrow> event list \<Rightarrow> 'n \<times> Vehicle \<Rightarrow> 'n \<times> Vehicle" where
  "lifecycle_run upd trm events s = foldl (lifecycle_step upd trm) s events"

text \<open>Concrete actors and positions used in the examples below.\<close>

definition vec :: "real \<Rightarrow> real \<Rightarrow> real \<Rightarrow> Vector3D" where
  "vec a b c = \<lparr>x = a, y = b, z = c\<rparr>"

definition actor :: "Vector3D \<Rightarrow> Vector3D \<Rightarrow> Vehicle" where
  "actor loc vel = \<lparr>location = loc, velocity = vel, applied = []\<rparr>"

text \<open>
  Frame conditions on control commands: two commands that agree on every field
  but the throttle, respectively the brake. \<open>commands_since before after\<close> are
  the commands the actor received between the two states, most recent first.
\<close>

definition same_except_throttle :: "VehicleControl \<Rightarrow> VehicleControl \<Rightarrow> bool" where
  "same_except_throttle c c0 \<longleftrightarrow>
     steer c = steer c0 \<and> brake c = brake c0 \<and>
     hand_brake c = hand_brake c0 \<and> reverse c = reverse c0"

definition same_except_brake :: "VehicleControl \<Rightarrow> VehicleControl \<Rightarrow> bool" where
  "same_except_brake c c0 \<longleftrightarrow>
     throttle c = throttle c0 \<and> steer c = steer c0 \<and>
     hand_brake c = hand_brake c0 \<and> reverse c = reverse c0"

definition commands_since :: "Vehicle \<Rightarrow> Vehicle \<Rightarrow> VehicleControl list" where
  "commands_since before after =
     take (length (applied after) - length (applied before)) (applied after)"

text \<open>
  Proof device for the runs: the later state of the actor extends the earlier
  one by commands that all satisfy \<open>P\<close>.
\<close>

definition sent_within :: "(VehicleControl \<Rightarrow> bool) \<Rightarrow> Vehicle \<Rightarrow> Vehicle \<Rightarrow> bool" where
  "sent_within P before after \<longleftrightarrow>
     (\<exists>new. applied after = new @ applied before \<and> (\<forall>c\<in>set new. P c))"

section \<open>Theorems\<close>

subsection \<open>Helper facts\<close>

lemma calculate_velocity_actor_x:
  "0 \<le> a \<Longrightarrow> calculate_velocity (actor loc (vec a 0 c)) = a"
  by (simp add: calculate_velocity_def get_velocity_def actor_def vec_def)

lemma calculate_distance_along_x:
  "a \<le> b \<Longrightarrow> calculate_distance (vec a c d) (vec b c d) = b - a"
  by (simp add: calculate_distance_def Location_distance_def vec_def)

lemma get_location_actor: "get_location (actor loc vel) = loc"
  by (simp add: get_location_def actor_def)


lemma lifecycle_run_induct:
  assumes "P s" and "\<And>s e. P s \<Longrightarrow> P (lifecycle_step upd trm s e)"
  shows "P (lifecycle_run upd trm events s)"
proof -
  have "P s' \<Longrightarrow> P (foldl (lifecycle_step upd trm) s' events)" for s'
  proof (induction events arbitrary: s')
    case Nil
    then show ?case by simp
  next
    case (Cons e es)
    from Cons.prems have "P (lifecycle_step upd trm s' e)"
      by (rule assms(2))
    then have "P (foldl (lifecycle_step upd trm) (lifecycle_step upd trm s' e) es)"
      by (rule Cons.IH)
    then show ?case by simp
  qed
  with assms(1) show ?thesis
    by (simp add: lifecycle_run_def)
qed

lemma lifecycle_run_snoc:
  "lifecycle_run upd trm (events @ [e]) s =
     lifecycle_step upd trm (lifecycle_run upd trm events s) e"
  by (simp add: lifecycle_run_def)

lemma lifecycle_step_Terminate:
  "lifecycle_step upd trm p (Terminate new_status) = trm (fst p) (snd p) new_status"
  by (cases p) simp

lemma sent_within_refl: "sent_within P v v"
  by (simp add: sent_within_def)

lemma sent_within_simulate:
  "sent_within P v0 v \<Longrightarrow> sent_within P v0 (v\<lparr>location := loc, velocity := vel\<rparr>)"
  by (simp add: sent_within_def)

lemma sent_within_apply:
  "sent_within P v0 v \<Longrightarrow> P c \<Longrightarrow> sent_within P v0 (apply_control c v)"
  by (auto simp: sent_within_def apply_control_def)

lemma sent_within_commands_since:
  "sent_within P v0 v \<Longrightarrow> c \<in> set (commands_since v0 v) \<Longrightarrow> P c"
  by (auto simp: sent_within_def commands_since_def)

lemma AccelerateToVelocity_step_frame:
  assumes "same_except_throttle (AccelerateToVelocity.control (fst s)) c0
           \<and> sent_within (\<lambda>c. same_except_throttle c c0) v0 (snd s)"
  shows "same_except_throttle (AccelerateToVelocity.control
            (fst (lifecycle_step AccelerateToVelocity_update AccelerateToVelocity_terminate s e))) c0
         \<and> sent_within (\<lambda>c. same_except_throttle c c0) v0
            (snd (lifecycle_step AccelerateToVelocity_update AccelerateToVelocity_terminate s e))"
proof (cases s)
  case (Pair n v)
  with assms show ?thesis
    by (cases e)
       (auto simp: AccelerateToVelocity_update_def AccelerateToVelocity_terminate_def Let_def
          same_except_throttle_def intro!: sent_within_simulate sent_within_apply)
qed

lemma KeepVelocity_step_frame:
  assumes "same_except_throttle (KeepVelocity.control (fst s)) c0
           \<and> sent_within (\<lambda>c. same_except_throttle c c0) v0 (snd s)"
  shows "same_except_throttle (KeepVelocity.control
            (fst (lifecycle_step KeepVelocity_update KeepVelocity_terminate s e))) c0
         \<and> sent_within (\<lambda>c. same_except_throttle c c0) v0
            (snd (lifecycle_step KeepVelocity_update KeepVelocity_terminate s e))"
proof (cases s)
  case (Pair n v)
  with assms show ?thesis
    by (cases e)
       (auto simp: KeepVelocity_update_def KeepVelocity_terminate_def Let_def
          same_except_throttle_def intro!: sent_within_simulate sent_within_apply)
qed

lemma StopVehicle_step_frame:
  assumes "same_except_brake (StopVehicle.control (fst s)) c0
           \<and> sent_within (\<lambda>c. same_except_brake c c0) v0 (snd s)"
  shows "same_except_brake (StopVehicle.control
            (fst (lifecycle_step StopVehicle_update StopVehicle_terminate s e))) c0
         \<and> sent_within (\<lambda>c. same_except_brake c c0) v0
            (snd (lifecycle_step StopVehicle_update StopVehicle_terminate s e))"
proof (cases s)
  case (Pair n v)
  with assms show ?thesis
    by (cases e)
       (auto simp: StopVehicle_update_def StopVehicle_terminate_def Let_def
          same_except_brake_def intro!: sent_within_simulate sent_within_apply)
qed

lemma AccelerateToVelocity_run_frame:
  "same_except_throttle (AccelerateToVelocity.control
      (fst (lifecycle_run AccelerateToVelocity_update AccelerateToVelocity_terminate events (a, v))))
      (AccelerateToVelocity.control a)
   \<and> sent_within (\<lambda>c. same_except_throttle c (AccelerateToVelocity.control a)) v
       (snd (lifecycle_run AccelerateToVelocity_update AccelerateToVelocity_terminate events (a, v)))"
proof (rule lifecycle_run_induct)
  show "same_except_throttle (AccelerateToVelocity.control (fst (a, v)))
          (AccelerateToVelocity.control a)
        \<and> sent_within (\<lambda>c. same_except_throttle c (AccelerateToVelocity.control a)) v
            (snd (a, v))"
    by (simp add: same_except_throttle_def sent_within_refl)
qed (rule AccelerateToVelocity_step_frame)

lemma KeepVelocity_run_frame:
  "same_except_throttle (KeepVelocity.control
      (fst (lifecycle_run KeepVelocity_update KeepVelocity_terminate events (k, v))))
      (KeepVelocity.control k)
   \<and> sent_within (\<lambda>c. same_except_throttle c (KeepVelocity.control k)) v
       (snd (lifecycle_run KeepVelocity_update KeepVelocity_terminate events (k, v)))"
proof (rule lifecycle_run_induct)
  show "same_except_throttle (KeepVelocity.control (fst (k, v))) (KeepVelocity.control k)
        \<and> sent_within (\<lambda>c. same_except_throttle c (KeepVelocity.control k)) v (snd (k, v))"
    by (simp add: same_except_throttle_def sent_within_refl)
qed (rule KeepVelocity_step_frame)

lemma StopVehicle_run_frame:
  "same_except_brake (StopVehicle.control
      (fst (lifecycle_run StopVehicle_update StopVehicle_terminate events (s, v))))
      (StopVehicle.control s)
   \<and> sent_within (\<lambda>c. same_except_brake c (StopVehicle.control s)) v
       (snd (lifecycle_run StopVehicle_update StopVehicle_terminate events (s, v)))"
proof (rule lifecycle_run_induct)
  show "same_except_brake (StopVehicle.control (fst (s, v))) (StopVehicle.control s)
        \<and> sent_within (\<lambda>c. same_except_brake c (StopVehicle.control s)) v (snd (s, v))"
    by (simp add: same_except_brake_def sent_within_refl)
qed (rule StopVehicle_step_frame)

subsection \<open>Termination of action nodes\<close>

text \<open>
  C1: calling \<open>terminate\<close> on an action node is claimed to leave the actor's
  commanded actuation at zero, whatever the state of the node and the status
  passed. \<open>KeepVelocity.terminate\<close> does so; \<open>StopVehicle.terminate\<close> and
  \<open>AccelerateToVelocity.terminate\<close> do not touch the command. An actor moving at
  speed 5 is ticked once by \<open>StopVehicle\<close> with brake value 1 (the tick returns
  RUNNING) and the node is then terminated with FAILURE: the actor is still
  commanded the brake 1. The same run of \<open>AccelerateToVelocity\<close> with throttle
  value 1 and target 10 leaves the throttle at 1.
\<close>

theorem StopVehicle_terminate_keeps_brake:
  "fst (StopVehicle_update (StopVehicle_init 1) (actor (vec 0 0 0) (vec 5 0 0))) = RUNNING
   \<and> brake (hd (applied (snd (lifecycle_run StopVehicle_update StopVehicle_terminate
        [Update, Terminate FAILURE]
        (StopVehicle_init 1, actor (vec 0 0 0) (vec 5 0 0)))))) = 1
   \<and> fst (AccelerateToVelocity_update (AccelerateToVelocity_init 1 10)
        (actor (vec 0 0 0) (vec 5 0 0))) = RUNNING
   \<and> throttle (hd (applied (snd (lifecycle_run AccelerateToVelocity_update
        AccelerateToVelocity_terminate [Update, Terminate FAILURE]
        (AccelerateToVelocity_init 1 10, actor (vec 0 0 0) (vec 5 0 0)))))) = 1"
  by (simp add: lifecycle_run_def StopVehicle_update_def StopVehicle_terminate_def
      StopVehicle_init_def AccelerateToVelocity_update_def AccelerateToVelocity_terminate_def
      AccelerateToVelocity_init_def calculate_velocity_actor_x EPSILON_def apply_control_def
      VehicleControl_init_def)

subsection \<open>Time to arrival at a location, actor at rest\<close>

text \<open>
  C2, as amended: for an actor whose speed is 0, \<open>InTimeToArrivalToLocation.update\<close>
  compares the sentinel 10000 with the time budget: it returns SUCCESS exactly
  when the budget is at least 10000 and RUNNING otherwise, whatever the
  distance to the target location, the distance 0 included.
\<close>

theorem InTimeToArrivalToLocation_update_standstill:
  "calculate_velocity vehicle = 0 \<Longrightarrow>
   InTimeToArrivalToLocation_update self vehicle =
     Inr (if 10000 \<le> InTimeToArrivalToLocation.time self then SUCCESS else RUNNING)"
  by (simp add: InTimeToArrivalToLocation_update_def Let_def EPSILON_def
      InTimeToArrivalToLocation_max_time_to_arrival_def)

theorem InTimeToArrivalToLocation_update_standstill_witness:
  "calculate_velocity (actor (vec 0 0 0) (vec 0 0 0)) = 0 \<and>
   InTimeToArrivalToLocation_update (InTimeToArrivalToLocation_init 5 (vec 7 0 0))
     (actor (vec 0 0 0) (vec 0 0 0)) = Inr RUNNING"
proof -
  have h: "calculate_velocity (actor (vec 0 0 0) (vec 0 0 0)) = 0"
    by (simp add: calculate_velocity_actor_x)
  show ?thesis
    using h InTimeToArrivalToLocation_update_standstill
              [OF h, of "InTimeToArrivalToLocation_init 5 (vec 7 0 0)"]
    by (simp add: InTimeToArrivalToLocation_init_def)
qed

text \<open>
  The claim as stated fails twice. An actor at rest on the target location
  (distance 0) with budget 5 gets RUNNING, not SUCCESS; an actor at rest at
  distance 100 with budget 10000 gets SUCCESS.
\<close>

theorem InTimeToArrivalToLocation_standstill_counterexample:
  "calculate_velocity (actor (vec 0 0 0) (vec 0 0 0)) = 0
   \<and> calculate_distance (get_location (actor (vec 0 0 0) (vec 0 0 0))) (vec 0 0 0) = 0
   \<and> InTimeToArrivalToLocation_update (InTimeToArrivalToLocation_init 5 (vec 0 0 0))
        (actor (vec 0 0 0) (vec 0 0 0)) = Inr RUNNING
   \<and> calculate_distance (get_location (actor (vec 0 0 0) (vec 0 0 0))) (vec 100 0 0) = 100
   \<and> InTimeToArrivalToLocation_update (InTimeToArrivalToLocation_init 10000 (vec 100 0 0))
        (actor (vec 0 0 0) (vec 0 0 0)) = Inr SUCCESS"
proof -
  have v: "calculate_velocity (actor (vec 0 0 0) (vec 0 0 0)) = 0"
    by (simp add: calculate_velocity_actor_x)
  have d0: "calculate_distance (vec 0 0 0) (vec 0 0 0) = 0"
    using calculate_distance_along_x [of 0 0 0 0] by simp
  have d1: "calculate_distance (vec 0 0 0) (vec 100 0 0) = 100"
    using calculate_distance_along_x [of 0 100 0 0] by simp
  show ?thesis
    by (simp add: v d0 d1 get_location_actor InTimeToArrivalToLocation_update_def Let_def
        InTimeToArrivalToLocation_init_def
        EPSILON_def InTimeToArrivalToLocation_max_time_to_arrival_def)
qed

subsection \<open>Velocity trigger\<close>

text \<open>
  C3, as amended: \<open>TriggerVelocity.update\<close> returns SUCCESS exactly when the
  speed minus the target velocity is below \<open>EPSILON\<close>, that is when the speed
  is below target + 0.001, and RUNNING exactly when the speed is at least
  target + 0.001. An actor whose speed is at or above the target therefore
  gets SUCCESS only while it exceeds the target by less than \<open>EPSILON\<close>.
\<close>

theorem TriggerVelocity_update_threshold:
  "(TriggerVelocity_update self vehicle = SUCCESS \<longleftrightarrow>
      calculate_velocity vehicle < TriggerVelocity.target_velocity self + EPSILON)
   \<and> (TriggerVelocity_update self vehicle = RUNNING \<longleftrightarrow>
      calculate_velocity vehicle \<ge> TriggerVelocity.target_velocity self + EPSILON)"
  by (auto simp: TriggerVelocity_update_def)

text \<open>
  The claim as stated fails for an actor at speed 10 with target velocity 5:
  the speed is above the target and the first tick returns RUNNING.
\<close>

theorem TriggerVelocity_update_counterexample:
  "calculate_velocity (actor (vec 0 0 0) (vec 10 0 0)) \<ge> TriggerVelocity.target_velocity (TriggerVelocity_init 5)
   \<and> TriggerVelocity_update (TriggerVelocity_init 5) (actor (vec 0 0 0) (vec 10 0 0)) = RUNNING"
  by (simp add: TriggerVelocity_update_def TriggerVelocity_init_def calculate_velocity_actor_x
      EPSILON_def)

subsection \<open>Time to arrival at a vehicle\<close>

text \<open>
  C4, as amended: \<open>InTimeToArrivalToVehicle.update\<close> takes as closing time
  \<open>2 * distance / (speed ego - speed other)\<close> when the ego actor is strictly
  faster than the other one and the sentinel 10000 otherwise, and returns
  SUCCESS exactly when that time is at most the budget, RUNNING otherwise; with
  the sentinel it therefore stays RUNNING for every budget below 10000 and
  returns SUCCESS for every budget from 10000 on. With the ego actor at (0,0)
  at speed 10 and the other actor at (100,0) at rest the closing time is 20:
  RUNNING for the budget 5, SUCCESS for 25.
\<close>

theorem InTimeToArrivalToVehicle_update_closing_time:
  "InTimeToArrivalToVehicle_update self other_vehicle ego_vehicle =
     Inr (if calculate_velocity ego_vehicle > calculate_velocity other_vehicle
          then (if 2 * calculate_distance (get_location ego_vehicle) (get_location other_vehicle)
                     / (calculate_velocity ego_vehicle - calculate_velocity other_vehicle)
                   \<le> InTimeToArrivalToVehicle.time self
                then SUCCESS else RUNNING)
          else (if 10000 \<le> InTimeToArrivalToVehicle.time self then SUCCESS else RUNNING))
   \<and> 2 * calculate_distance (vec 0 0 0) (vec 100 0 0)
        / (calculate_velocity (actor (vec 0 0 0) (vec 10 0 0))
           - calculate_velocity (actor (vec 100 0 0) (vec 0 0 0))) = 20
   \<and> InTimeToArrivalToVehicle_update (InTimeToArrivalToVehicle_init 5)
        (actor (vec 100 0 0) (vec 0 0 0)) (actor (vec 0 0 0) (vec 10 0 0)) = Inr RUNNING
   \<and> InTimeToArrivalToVehicle_update (InTimeToArrivalToVehicle_init 25)
        (actor (vec 100 0 0) (vec 0 0 0)) (actor (vec 0 0 0) (vec 10 0 0)) = Inr SUCCESS"
proof -
  have gen: "\<And>self other_vehicle ego_vehicle. InTimeToArrivalToVehicle_update self other_vehicle ego_vehicle =
     Inr (if calculate_velocity ego_vehicle > calculate_velocity other_vehicle
          then (if 2 * calculate_distance (get_location ego_vehicle) (get_location other_vehicle)
                     / (calculate_velocity ego_vehicle - calculate_velocity other_vehicle)
                   \<le> InTimeToArrivalToVehicle.time self
                then SUCCESS else RUNNING)
          else (if 10000 \<le> InTimeToArrivalToVehicle.time self then SUCCESS else RUNNING))"
    by (simp add: InTimeToArrivalToVehicle_update_def Let_def py_truediv_def
        InTimeToArrivalToVehicle_max_time_to_arrival_def)
  have v1: "calculate_velocity (actor (vec 0 0 0) (vec 10 0 0)) = 10"
    by (simp add: calculate_velocity_actor_x)
  have v2: "calculate_velocity (actor (vec 100 0 0) (vec 0 0 0)) = 0"
    by (simp add: calculate_velocity_actor_x)
  have d: "calculate_distance (vec 0 0 0) (vec 100 0 0) = 100"
    using calculate_distance_along_x [of 0 100 0 0] by simp
  have l1: "get_location (actor (vec 0 0 0) (vec 10 0 0)) = vec 0 0 0"
    and l2: "get_location (actor (vec 100 0 0) (vec 0 0 0)) = vec 100 0 0"
    by (simp_all add: get_location_def actor_def)
  show ?thesis
    by (simp add: gen v1 v2 d l1 l2 InTimeToArrivalToVehicle_init_def)
qed

text \<open>
  The claim as stated has the node stay RUNNING whenever the sentinel is used.
  With both actors at rest, 100 apart, the ego actor is not the faster one, the
  sentinel is used, and the budget 10000 gives SUCCESS.
\<close>

theorem InTimeToArrivalToVehicle_update_sentinel_counterexample:
  "\<not> calculate_velocity (actor (vec 0 0 0) (vec 0 0 0))
        > calculate_velocity (actor (vec 100 0 0) (vec 0 0 0))
   \<and> InTimeToArrivalToVehicle_update (InTimeToArrivalToVehicle_init 10000)
        (actor (vec 100 0 0) (vec 0 0 0)) (actor (vec 0 0 0) (vec 0 0 0)) = Inr SUCCESS"
  by (simp add: InTimeToArrivalToVehicle_update_def InTimeToArrivalToVehicle_init_def Let_def
      calculate_velocity_actor_x InTimeToArrivalToVehicle_max_time_to_arrival_def)

subsection \<open>Guarded division\<close>




subsection \<open>Condition nodes never fail\<close>

text \<open>
  C6: every condition node (\<open>InTriggerRegion\<close>, \<open>InTriggerDistanceToVehicle\<close>,
  \<open>InTriggerDistanceToLocation\<close>, \<open>TriggerVelocity\<close>, \<open>InTimeToArrivalToLocation\<close>,
  \<open>InTimeToArrivalToVehicle\<close>) returns, at every actor state, SUCCESS when its
  predicate holds at that tick and RUNNING when it does not: never FAILURE, and
  SUCCESS on the very tick the predicate is satisfied, since the result depends
  on the state at the tick alone.
\<close>

theorem condition_update_running_or_success:
  "InTriggerRegion_update n1 vehicle =
     (if min_x n1 \<le> x (get_location vehicle) \<and> x (get_location vehicle) \<le> max_x n1 \<and>
         min_y n1 \<le> y (get_location vehicle) \<and> y (get_location vehicle) \<le> max_y n1
      then SUCCESS else RUNNING)
   \<and> InTriggerDistanceToVehicle_update n2 other_vehicle ego_vehicle =
     (if calculate_distance (get_location ego_vehicle) (get_location other_vehicle)
           \<le> InTriggerDistanceToVehicle.distance n2
      then SUCCESS else RUNNING)
   \<and> InTriggerDistanceToLocation_update n3 vehicle =
     (if calculate_distance (get_location vehicle) (InTriggerDistanceToLocation.target_location n3)
           \<le> InTriggerDistanceToLocation.distance n3
      then SUCCESS else RUNNING)
   \<and> TriggerVelocity_update n4 vehicle =
     (if calculate_velocity vehicle - TriggerVelocity.target_velocity n4 < EPSILON
      then SUCCESS else RUNNING)
   \<and> InTimeToArrivalToLocation_update n5 vehicle =
     Inr (if (if calculate_velocity vehicle > EPSILON
              then calculate_distance (get_location vehicle)
                     (InTimeToArrivalToLocation.target_location n5) / calculate_velocity vehicle
              else 10000) \<le> InTimeToArrivalToLocation.time n5
          then SUCCESS else RUNNING)
   \<and> InTimeToArrivalToVehicle_update n6 other_vehicle ego_vehicle =
     Inr (if (if calculate_velocity ego_vehicle > calculate_velocity other_vehicle
              then 2 * calculate_distance (get_location ego_vehicle) (get_location other_vehicle)
                     / (calculate_velocity ego_vehicle - calculate_velocity other_vehicle)
              else 10000) \<le> InTimeToArrivalToVehicle.time n6
          then SUCCESS else RUNNING)"
  by (auto simp: InTriggerRegion_update_def InTriggerDistanceToVehicle_update_def
      InTriggerDistanceToLocation_update_def TriggerVelocity_update_def
      InTimeToArrivalToLocation_update_def InTimeToArrivalToVehicle_update_def Let_def
      py_truediv_def EPSILON_def InTimeToArrivalToLocation_max_time_to_arrival_def
      InTimeToArrivalToVehicle_max_time_to_arrival_def)

subsection \<open>Region trigger\<close>

text \<open>
  C7: \<open>InTriggerRegion.update\<close> returns SUCCESS exactly for the positions with
  \<open>min_x \<le> x \<le> max_x\<close> and \<open>min_y \<le> y \<le> max_y\<close>, the four bounds included, and
  RUNNING for every other position, that is when \<open>x < min_x\<close>, \<open>x > max_x\<close>,
  \<open>y < min_y\<close> or \<open>y > max_y\<close>.
\<close>

theorem InTriggerRegion_update_inclusive:
  "(InTriggerRegion_update self vehicle = SUCCESS \<longleftrightarrow>
      min_x self \<le> x (get_location vehicle) \<and> x (get_location vehicle) \<le> max_x self \<and>
      min_y self \<le> y (get_location vehicle) \<and> y (get_location vehicle) \<le> max_y self)
   \<and> (InTriggerRegion_update self vehicle = RUNNING \<longleftrightarrow>
      x (get_location vehicle) < min_x self \<or> x (get_location vehicle) > max_x self \<or>
      y (get_location vehicle) < min_y self \<or> y (get_location vehicle) > max_y self)"
  by (auto simp: InTriggerRegion_update_def Let_def)

subsection \<open>Action nodes: the persistent command\<close>


subsection \<open>Keeping a velocity\<close>

text \<open>
  C9: \<open>KeepVelocity.update\<close> returns RUNNING at every node and actor state, so
  after any number of ticks; it sets the throttle to 1.0 when the speed is
  below the target velocity and to 0.0 otherwise, and issues the command.
  \<open>KeepVelocity.terminate\<close> sets the throttle to 0 and issues that command to
  the actor, so after any run that ends with a termination the actor is
  commanded the throttle 0.
\<close>

theorem KeepVelocity_always_running:
  "fst (KeepVelocity_update self vehicle) = RUNNING
   \<and> throttle (KeepVelocity.control (fst (snd (KeepVelocity_update self vehicle)))) =
       (if calculate_velocity vehicle < KeepVelocity.target_velocity self then 1.0 else 0.0)
   \<and> applied (snd (snd (KeepVelocity_update self vehicle))) =
       KeepVelocity.control (fst (snd (KeepVelocity_update self vehicle))) # applied vehicle
   \<and> throttle (KeepVelocity.control (fst (KeepVelocity_terminate self vehicle new_status))) = 0
   \<and> applied (snd (KeepVelocity_terminate self vehicle new_status)) =
       KeepVelocity.control (fst (KeepVelocity_terminate self vehicle new_status)) # applied vehicle
   \<and> throttle (hd (applied (snd (lifecycle_run KeepVelocity_update KeepVelocity_terminate
        (events @ [Terminate new_status]) (self, vehicle))))) = 0"
  by (simp add: KeepVelocity_update_def KeepVelocity_terminate_def apply_control_def Let_def
      lifecycle_run_snoc lifecycle_step_Terminate)

subsection \<open>Action nodes: frame\<close>

text \<open>
  C10: across any sequence of moves of the actor, \<open>update\<close> calls and
  \<open>terminate\<close> calls, \<open>AccelerateToVelocity\<close> and \<open>KeepVelocity\<close> change no field
  of their command but the throttle, and \<open>StopVehicle\<close> none but the brake;
  starting from the constructed node, every command the actor receives has
  all the other fields (brake respectively throttle, steer, hand brake,
  reverse) at their construction-time defaults.
\<close>

theorem action_nodes_frame:
  "same_except_throttle (AccelerateToVelocity.control
      (fst (lifecycle_run AccelerateToVelocity_update AccelerateToVelocity_terminate events (a, v))))
      (AccelerateToVelocity.control a)
   \<and> same_except_throttle (KeepVelocity.control
      (fst (lifecycle_run KeepVelocity_update KeepVelocity_terminate events (k, v))))
      (KeepVelocity.control k)
   \<and> same_except_brake (StopVehicle.control
      (fst (lifecycle_run StopVehicle_update StopVehicle_terminate events (s, v))))
      (StopVehicle.control s)
   \<and> (\<forall>c \<in> set (commands_since v
          (snd (lifecycle_run AccelerateToVelocity_update AccelerateToVelocity_terminate events
             (AccelerateToVelocity_init throttle_val target_vel, v)))).
        same_except_throttle c VehicleControl_init)
   \<and> (\<forall>c \<in> set (commands_since v
          (snd (lifecycle_run KeepVelocity_update KeepVelocity_terminate events
             (KeepVelocity_init target_vel, v)))).
        same_except_throttle c VehicleControl_init)
   \<and> (\<forall>c \<in> set (commands_since v
          (snd (lifecycle_run StopVehicle_update StopVehicle_terminate events
             (StopVehicle_init brake_val, v)))).
        same_except_brake c VehicleControl_init)"
proof -
  have ca: "AccelerateToVelocity.control (AccelerateToVelocity_init throttle_val target_vel)
              = VehicleControl_init"
    by (simp add: AccelerateToVelocity_init_def)
  have ck: "KeepVelocity.control (KeepVelocity_init target_vel) = VehicleControl_init"
    by (simp add: KeepVelocity_init_def)
  have cs: "StopVehicle.control (StopVehicle_init brake_val) = VehicleControl_init"
    by (simp add: StopVehicle_init_def)
  show ?thesis
    using AccelerateToVelocity_run_frame [of events a v]
      KeepVelocity_run_frame [of events k v]
      StopVehicle_run_frame [of events s v]
      AccelerateToVelocity_run_frame
        [of events "AccelerateToVelocity_init throttle_val target_vel" v]
      KeepVelocity_run_frame [of events "KeepVelocity_init target_vel" v]
      StopVehicle_run_frame [of events "StopVehicle_init brake_val" v]
    unfolding ca ck cs
    by (blast dest: sent_within_commands_since)
qed

theorem action_nodes_frame_witness:
  "commands_since (actor (vec 0 0 0) (vec 0 0 0))
     (snd (lifecycle_run AccelerateToVelocity_update AccelerateToVelocity_terminate
        [Simulate (vec 0 0 0) (vec 5 0 0), Update, Terminate FAILURE]
        (AccelerateToVelocity_init 1 10, actor (vec 0 0 0) (vec 0 0 0))))
     = [VehicleControl_init\<lparr>throttle := 1\<rparr>]
   \<and> (list_all (\<lambda>c. same_except_throttle c VehicleControl_init)
        (commands_since (actor (vec 0 0 0) (vec 0 0 0))
          (snd (lifecycle_run AccelerateToVelocity_update AccelerateToVelocity_terminate
             [Simulate (vec 0 0 0) (vec 5 0 0), Update, Terminate FAILURE]
             (AccelerateToVelocity_init 1 10, actor (vec 0 0 0) (vec 0 0 0))))))
   \<and> commands_since (actor (vec 0 0 0) (vec 0 0 0))
     (snd (lifecycle_run KeepVelocity_update KeepVelocity_terminate
        [Simulate (vec 0 0 0) (vec 5 0 0), Update, Terminate FAILURE]
        (KeepVelocity_init 10, actor (vec 0 0 0) (vec 0 0 0))))
     = [VehicleControl_init, VehicleControl_init\<lparr>throttle := 1\<rparr>]
   \<and> (list_all (\<lambda>c. same_except_throttle c VehicleControl_init)
        (commands_since (actor (vec 0 0 0) (vec 0 0 0))
          (snd (lifecycle_run KeepVelocity_update KeepVelocity_terminate
             [Simulate (vec 0 0 0) (vec 5 0 0), Update, Terminate FAILURE]
             (KeepVelocity_init 10, actor (vec 0 0 0) (vec 0 0 0))))))
   \<and> commands_since (actor (vec 0 0 0) (vec 0 0 0))
     (snd (lifecycle_run StopVehicle_update StopVehicle_terminate
        [Simulate (vec 0 0 0) (vec 5 0 0), Update, Terminate FAILURE]
        (StopVehicle_init 1, actor (vec 0 0 0) (vec 0 0 0))))
     = [VehicleControl_init\<lparr>brake := 1\<rparr>]
   \<and> (list_all (\<lambda>c. same_except_brake c VehicleControl_init)
        (commands_since (actor (vec 0 0 0) (vec 0 0 0))
          (snd (lifecycle_run StopVehicle_update StopVehicle_terminate
             [Simulate (vec 0 0 0) (vec 5 0 0), Update, Terminate FAILURE]
             (StopVehicle_init 1, actor (vec 0 0 0) (vec 0 0 0))))))"
proof -
  have v: "calculate_velocity (actor (vec 0 0 0) (vec 0 0 0)\<lparr>location := vec 0 0 0,
             velocity := vec 5 0 0\<rparr>) = 5"
    using calculate_velocity_actor_x [of 5 "vec 0 0 0" 0] by (simp add: actor_def)
  have v': "calculate_velocity \<lparr>location = vec 0 0 0, velocity = vec 5 0 0, applied = []\<rparr> = 5"
    using v by (simp add: actor_def)
  have a: "commands_since (actor (vec 0 0 0) (vec 0 0 0))
     (snd (lifecycle_run AccelerateToVelocity_update AccelerateToVelocity_terminate
        [Simulate (vec 0 0 0) (vec 5 0 0), Update, Terminate FAILURE]
        (AccelerateToVelocity_init 1 10, actor (vec 0 0 0) (vec 0 0 0))))
     = [VehicleControl_init\<lparr>throttle := 1\<rparr>]"
    by (simp add: lifecycle_run_def AccelerateToVelocity_update_def v v'
        AccelerateToVelocity_terminate_def AccelerateToVelocity_init_def apply_control_def
        commands_since_def actor_def)
  have k: "commands_since (actor (vec 0 0 0) (vec 0 0 0))
     (snd (lifecycle_run KeepVelocity_update KeepVelocity_terminate
        [Simulate (vec 0 0 0) (vec 5 0 0), Update, Terminate FAILURE]
        (KeepVelocity_init 10, actor (vec 0 0 0) (vec 0 0 0))))
     = [VehicleControl_init, VehicleControl_init\<lparr>throttle := 1\<rparr>]"
    by (simp add: lifecycle_run_def KeepVelocity_update_def v v'
        KeepVelocity_terminate_def KeepVelocity_init_def apply_control_def
        commands_since_def actor_def VehicleControl_init_def)
  have s: "commands_since (actor (vec 0 0 0) (vec 0 0 0))
     (snd (lifecycle_run StopVehicle_update StopVehicle_terminate
        [Simulate (vec 0 0 0) (vec 5 0 0), Update, Terminate FAILURE]
        (StopVehicle_init 1, actor (vec 0 0 0) (vec 0 0 0))))
     = [VehicleControl_init\<lparr>brake := 1\<rparr>]"
    by (simp add: lifecycle_run_def StopVehicle_update_def v v' EPSILON_def
        StopVehicle_terminate_def StopVehicle_init_def apply_control_def
        commands_since_def actor_def)
  show ?thesis
    using a k s
      action_nodes_frame [of "[Simulate (vec 0 0 0) (vec 5 0 0), Update, Terminate FAILURE]"
        "AccelerateToVelocity_init 1 10" "actor (vec 0 0 0) (vec 0 0 0)"
        "KeepVelocity_init 10" "StopVehicle_init 1" 1 10 1]
    by (simp add: list_all_iff)
qed

end
